theory Spec2Isabelle
  imports
    Complex_Main
    "HOL-Library.Char_ord"
    "HOL-Library.List_Lexorder"
    "HOL-Library.Product_Lexorder"
    "HOL-Library.Multiset"
begin

section \<open>The goals tracker (goals\_app.py)\<close>

text \<open>
  A shallow embedding of \<^verbatim>\<open>goals_app.py\<close>: the elapsed-time formatter
  \<^verbatim>\<open>calculate_time_elapsed\<close> and the methods of \<^verbatim>\<open>GoalsApp\<close> that read and
  change the goal list, the font-size setting and the two JSON files.

  Conventions of the model.
  \<^item> A Python \<^verbatim>\<open>str\<close> is a \<^typ>\<open>string\<close>; strings are compared as Python
    compares them, lexicographically by character code. \<^verbatim>\<open>str.strip\<close> and
    \<^verbatim>\<open>str.lower\<close> are modelled on the ASCII range.
  \<^item> \<^verbatim>\<open>date.fromisoformat\<close> is the library parser for the format the program
    documents, \<^verbatim>\<open>YYYY-MM-DD\<close>: ten characters, digits and two hyphens, naming
    a day of the proleptic Gregorian calendar in the years 1 to 9999. The further
    ISO 8601 forms that later versions of the library also read are not modelled.
  \<^item> \<^verbatim>\<open>date.today()\<close> and the formatted \<^verbatim>\<open>datetime.now()\<close> are parameters.
  \<^item> A file holds the decoded JSON value; \<^verbatim>\<open>json.dump\<close> followed by
    \<^verbatim>\<open>json.load\<close> gives the value back. Opening a file for writing, and
    opening an existing file for reading, succeed.
  \<^item> Widgets are not modelled, except the text and colour of the status label.
\<close>

subsection \<open>Constants\<close>


definition DEFAULT_FONT_SIZE :: int where
  "DEFAULT_FONT_SIZE = 16"

definition MIN_FONT_SIZE :: int where
  "MIN_FONT_SIZE = 12"

definition MAX_FONT_SIZE :: int where
  "MAX_FONT_SIZE = 24"

definition FONT_SIZE_INCREMENT :: int where
  "FONT_SIZE_INCREMENT = 2"

subsection \<open>Strings\<close>

text \<open>The ASCII characters that \<^verbatim>\<open>str.strip()\<close> removes: tab, line feed, vertical
  tab, form feed, carriage return, the four separators 28 to 31, and space.\<close>

definition is_space :: "char \<Rightarrow> bool" where
  "is_space c = (let n = (of_char c :: nat) in (9 \<le> n \<and> n \<le> 13) \<or> (28 \<le> n \<and> n \<le> 32))"

definition strip :: "string \<Rightarrow> string" where
  "strip s = rev (dropWhile is_space (rev (dropWhile is_space s)))"

definition lower_char :: "char \<Rightarrow> char" where
  "lower_char c =
     (let n = (of_char c :: nat) in if 65 \<le> n \<and> n \<le> 90 then char_of (n + 32) else c)"

definition lower :: "string \<Rightarrow> string" where
  "lower s = map lower_char s"

text \<open>\<^verbatim>\<open>sep.join(parts)\<close>.\<close>

fun join :: "string \<Rightarrow> string list \<Rightarrow> string" where
  "join sep [] = []"
| "join sep [p] = p"
| "join sep (p # q # ps) = p @ sep @ join sep (q # ps)"

text \<open>The decimal text of an integer, as an f-string prints it.\<close>

definition digit_char :: "nat \<Rightarrow> char" where
  "digit_char n = char_of (48 + n)"

function str_nat :: "nat \<Rightarrow> string" where
  "str_nat n = (if n < 10 then [digit_char n] else str_nat (n div 10) @ [digit_char (n mod 10)])"
  by pat_completeness auto
termination
  by (relation "measure (\<lambda>n. n)") auto

declare str_nat.simps [simp del]

definition str_int :: "int \<Rightarrow> string" where
  "str_int i = (if i < 0 then CHR ''-'' # str_nat (nat (- i)) else str_nat (nat i))"

subsection \<open>Calendar dates\<close>

record date =
  year :: nat
  month :: nat
  day :: nat







definition is_digit :: "char \<Rightarrow> bool" where
  "is_digit c = (CHR ''0'' \<le> c \<and> c \<le> CHR ''9'')"

definition digit_val :: "char \<Rightarrow> nat" where
  "digit_val c = of_char c - 48"

text \<open>A run of decimal digits read as a number; \<open>None\<close> when a character is not a digit.\<close>

fun parse_digits :: "nat \<Rightarrow> string \<Rightarrow> nat option" where
  "parse_digits acc [] = Some acc"
| "parse_digits acc (c # cs) =
     (if is_digit c then parse_digits (10 * acc + digit_val c) cs else None)"


subsection \<open>The elapsed-time formatter\<close>

text \<open>The list \<^verbatim>\<open>parts\<close> that \<^verbatim>\<open>calculate_time_elapsed\<close> builds from
  \<^verbatim>\<open>delta.days\<close> (lines 41 to 49).\<close>

definition elapsed_parts :: "int \<Rightarrow> string list" where
  "elapsed_parts delta_days =
     (let years = delta_days div 365;
          remaining_days = delta_days mod 365;
          days = remaining_days;
          parts0 = [];
          parts1 = (if years > 0
                    then parts0 @ [str_int years @ '' year'' @ (if years > 1 then ''s'' else [])]
                    else parts0);
          parts2 = (if days > 0 \<or> delta_days = 0
                    then parts1 @ [str_int days @ '' day'' @ (if days \<noteq> 1 then ''s'' else [])]
                    else parts1)
      in parts2)"

text \<open>The three returns of lines 51 to 58, for \<^verbatim>\<open>delta.days\<close> not negative.\<close>

definition format_elapsed :: "int \<Rightarrow> string \<times> int option" where
  "format_elapsed delta_days =
     (let parts = elapsed_parts delta_days in
      if delta_days = 0 then (''Today is the day!'', Some delta_days)
      else if parts = [] then
        (str_int delta_days @ '' day'' @ (if delta_days \<noteq> 1 then ''s'' else []) @ '' ago'',
         Some delta_days)
      else (join '', '' parts @ '' ago'', Some delta_days))"




subsection \<open>Goal records, files and the application state\<close>

text \<open>A goal is a JSON object (a Python dict) read with \<^verbatim>\<open>.get(key, default)\<close>: either
  key may be absent in a record that came from the data file.\<close>

record goal =
  name :: "string option"
  date :: "string option"

text \<open>\<^verbatim>\<open>d.get(key, default)\<close>, for the value \<open>v\<close> stored under the key, if any.\<close>

definition dict_get :: "'a option \<Rightarrow> 'a \<Rightarrow> 'a" where
  "dict_get v dflt = (case v of None \<Rightarrow> dflt | Some x \<Rightarrow> x)"

text \<open>The data file \<^verbatim>\<open>goals_data.json\<close>: absent, not decodable as JSON, or a JSON array
  of goal objects.\<close>

datatype data_content = No_data_file | Data_not_json | Json_goals "goal list"

text \<open>The value stored under \<^verbatim>\<open>"font_size"\<close>: a number (JSON integers and finite
  reals; Python compares them exactly with the integer bounds), or a value that Python
  does not compare with an integer (string, null, array, object: \<^verbatim>\<open>TypeError\<close>).
  \<^verbatim>\<open>true\<close> and \<^verbatim>\<open>false\<close> compare as the numbers 1 and 0. The font size in use
  is therefore a real number.\<close>

datatype jvalue = Num real | Not_number

text \<open>The settings file \<^verbatim>\<open>settings.json\<close>: absent, not decodable as JSON, a JSON value
  that is not an object, or an object with its \<^verbatim>\<open>"font_size"\<close> entry, if any.\<close>

datatype settings_content =
  No_settings_file | Settings_not_json | Json_not_object | Json_object "jvalue option"


record app =
  goals :: "goal list"
  current_font_size :: real
  status_label :: "string \<times> string"
  data_file :: data_content
  settings_file :: settings_content


subsection \<open>Settings\<close>

definition save_settings :: "app \<Rightarrow> app" where
  "save_settings s = s\<lparr>settings_file := Json_object (Some (Num (current_font_size s)))\<rparr>"

text \<open>\<^verbatim>\<open>load_settings\<close>. A JSON value that is not an object has no \<^verbatim>\<open>get\<close>: the
  \<^verbatim>\<open>AttributeError\<close> reaches the last handler, which does not save.\<close>

definition load_settings :: "app \<Rightarrow> app" where
  "load_settings s =
     (case settings_file s of
        No_settings_file \<Rightarrow>
          save_settings (s\<lparr>current_font_size := of_int DEFAULT_FONT_SIZE\<rparr>)
      | Settings_not_json \<Rightarrow>
          save_settings (s\<lparr>current_font_size := of_int DEFAULT_FONT_SIZE\<rparr>)
      | Json_not_object \<Rightarrow> s\<lparr>current_font_size := of_int DEFAULT_FONT_SIZE\<rparr>
      | Json_object entry \<Rightarrow>
          (case dict_get entry (Num (of_int DEFAULT_FONT_SIZE)) of
             Not_number \<Rightarrow>
               save_settings (s\<lparr>current_font_size := of_int DEFAULT_FONT_SIZE\<rparr>)
           | Num loaded_size \<Rightarrow>
               if of_int MIN_FONT_SIZE \<le> loaded_size \<and> loaded_size \<le> of_int MAX_FONT_SIZE
               then s\<lparr>current_font_size := loaded_size\<rparr>
               else save_settings (s\<lparr>current_font_size := of_int DEFAULT_FONT_SIZE\<rparr>)))"

subsection \<open>The goal store\<close>


text \<open>The sort keys of \<^verbatim>\<open>save_goals\<close> (line 294) and of the fallback sort of
  \<^verbatim>\<open>update_display\<close> (line 320).\<close>

definition save_key :: "goal \<Rightarrow> string" where
  "save_key x = dict_get (date x) ''0000-00-00''"


text \<open>\<^verbatim>\<open>list.sort(key=...)\<close> is stable, as \<^const>\<open>sort_key\<close> is.\<close>

definition save_goals :: "app \<Rightarrow> app" where
  "save_goals s =
     (let s1 = s\<lparr>goals := sort_key save_key (goals s)\<rparr>
      in s1\<lparr>data_file := Json_goals (goals s1)\<rparr>)"





subsection \<open>The uniqueness invariant\<close>



subsection \<open>Example states\<close>

text \<open>The state that \<^verbatim>\<open>__init__\<close> starts from (lines 86 to 88, and the empty grey
  status label of line 166); stores with one goal, with ten goals, with two goals out of
  order, and with a date that does not parse; a settings file that stores a font size.\<close>

definition fresh_app :: app where
  "fresh_app = \<lparr>goals = [], current_font_size = of_int DEFAULT_FONT_SIZE,
     status_label = ([], ''gray''), data_file = No_data_file,
     settings_file = No_settings_file\<rparr>"





definition stored :: "real \<Rightarrow> app" where
  "stored x = fresh_app\<lparr>settings_file := Json_object (Some (Num x))\<rparr>"

section \<open>Evaluation\<close>

text \<open>The equations that evaluate the string and date functions on literals.\<close>

lemmas text_eval = strip_def is_space_def lower_def lower_char_def char_of_def bit_Suc_0_iff
  digit_char_def str_int_def str_nat.simps


section \<open>Properties of the elapsed-time formatter\<close>


lemma elapsed_parts_nonempty: "0 < d \<Longrightarrow> elapsed_parts d \<noteq> []"
proof -
  assume pos: "0 < d"
  show ?thesis
  proof (cases "0 < d div 365")
    case True
    then show ?thesis by (simp add: elapsed_parts_def Let_def)
  next
    case False
    from pos have "0 \<le> d div 365" by (simp add: pos_imp_zdiv_nonneg_iff)
    with False have "d div 365 = 0" by linarith
    with div_mult_mod_eq[of d 365] have "d mod 365 = d" by simp
    with pos show ?thesis by (simp add: elapsed_parts_def Let_def)
  qed
qed

text \<open>
  Claim C10. For a positive day count the list of clauses is not empty: a year clause
  when the count reaches 365, a day clause otherwise, because then the remainder is the
  count itself. The return of line 55, taken when the list is empty, is therefore never
  taken for a positive count: the result is the joined clauses followed by \<open>ago\<close>.
\<close>

theorem fallback_unreachable:
  "0 < d \<Longrightarrow> elapsed_parts d \<noteq> [] \<and>
     format_elapsed d = (join '', '' (elapsed_parts d) @ '' ago'', Some d)"
  using elapsed_parts_nonempty[of d] by (simp add: format_elapsed_def Let_def)

theorem fallback_unreachable_witness:
  "(0::int) < 40 \<and> elapsed_parts 40 \<noteq> [] \<and>
   format_elapsed 40 = (join '', '' (elapsed_parts 40) @ '' ago'', Some 40) \<and>
   elapsed_parts 40 = [''40 days'']"
proof -
  have h: "(0::int) < 40" by simp
  have e: "elapsed_parts 40 = [''40 days'']"
    by (simp add: elapsed_parts_def text_eval)
  from h e fallback_unreachable[OF h] show ?thesis by blast
qed



section \<open>ISO date strings\<close>








lemma parse_digits_Some: "parse_digits acc cs = Some v \<Longrightarrow> list_all is_digit cs"
  by (induction cs arbitrary: acc) (auto split: if_splits)







section \<open>Properties of the goal store\<close>







lemma status_save_goals: "status_label (save_goals s) = status_label s"
  by (simp add: save_goals_def Let_def)








































text \<open>
  Claim C6, as amended. For every settings file the font size in use after
  \<open>load_settings\<close> lies between \<open>MIN_FONT_SIZE\<close> and \<open>MAX_FONT_SIZE\<close>. A stored number in
  that range is kept as it is, on a step of 2 or not, and the file is left alone. When
  the stored value is out of range or not a number, or the file is absent or is not
  JSON, the default 16 is used and written to the file. When the file is an object
  without the key, or JSON that is not an object, the default 16 is used and the file
  is left as it is.
\<close>

theorem load_settings_effective:
  "of_int MIN_FONT_SIZE \<le> current_font_size (load_settings s) \<and>
   current_font_size (load_settings s) \<le> of_int MAX_FONT_SIZE \<and>
   (settings_file s = Json_object (Some (Num x)) \<and> of_int MIN_FONT_SIZE \<le> x \<and>
      x \<le> of_int MAX_FONT_SIZE \<longrightarrow>
      current_font_size (load_settings s) = x \<and>
      settings_file (load_settings s) = settings_file s) \<and>
   (settings_file s = Json_object (Some (Num x)) \<and>
      \<not> (of_int MIN_FONT_SIZE \<le> x \<and> x \<le> of_int MAX_FONT_SIZE) \<or>
    settings_file s = Json_object (Some Not_number) \<or>
    settings_file s = No_settings_file \<or> settings_file s = Settings_not_json \<longrightarrow>
      current_font_size (load_settings s) = of_int DEFAULT_FONT_SIZE \<and>
      settings_file (load_settings s) = Json_object (Some (Num (of_int DEFAULT_FONT_SIZE)))) \<and>
   (settings_file s = Json_object None \<or> settings_file s = Json_not_object \<longrightarrow>
      current_font_size (load_settings s) = of_int DEFAULT_FONT_SIZE \<and>
      settings_file (load_settings s) = settings_file s)"
  by (cases "settings_file s")
     (auto simp: load_settings_def save_settings_def dict_get_def DEFAULT_FONT_SIZE_def
        MIN_FONT_SIZE_def MAX_FONT_SIZE_def split: option.splits jvalue.splits)

theorem load_settings_effective_witness:
  "current_font_size (load_settings (stored 5)) = 16 \<and>
   settings_file (load_settings (stored 5)) = Json_object (Some (Num 16)) \<and>
   current_font_size (load_settings (stored 18)) = 18 \<and>
   settings_file (load_settings (stored 18)) = settings_file (stored 18)"
proof -
  have a: "settings_file (stored 5) = Json_object (Some (Num 5))"
    and b: "settings_file (stored 18) = Json_object (Some (Num 18))"
    by (simp_all add: stored_def fresh_app_def)
  have c: "\<not> (of_int MIN_FONT_SIZE \<le> (5::real) \<and> (5::real) \<le> of_int MAX_FONT_SIZE)"
    and d: "of_int MIN_FONT_SIZE \<le> (18::real) \<and> (18::real) \<le> of_int MAX_FONT_SIZE"
    by (simp_all add: MIN_FONT_SIZE_def MAX_FONT_SIZE_def)
  have e: "(of_int DEFAULT_FONT_SIZE :: real) = 16" by (simp add: DEFAULT_FONT_SIZE_def)
  from a b c d load_settings_effective[of "stored 5" 5] load_settings_effective[of "stored 18" 18]
  show ?thesis unfolding e by blast
qed

text \<open>
  The claim as first stated fails twice: a stored 13 is in range and is kept, though it
  is not on a step of 2 from 12; and an object without the key gives the default
  without the file being rewritten.
\<close>

theorem load_settings_counterexample:
  "current_font_size (load_settings (stored 13)) = 13 \<and>
   (13 - MIN_FONT_SIZE) mod FONT_SIZE_INCREMENT \<noteq> 0 \<and>
   settings_file (load_settings (fresh_app\<lparr>settings_file := Json_object None\<rparr>)) = Json_object None \<and>
   settings_file (load_settings (fresh_app\<lparr>settings_file := Json_object None\<rparr>)) \<noteq>
     Json_object (Some (Num 16))"
  by (simp add: load_settings_def stored_def fresh_app_def dict_get_def DEFAULT_FONT_SIZE_def
      MIN_FONT_SIZE_def MAX_FONT_SIZE_def FONT_SIZE_INCREMENT_def)

end
